theory Spec2Isabelle
  imports Main
begin

section \<open>Symbols and end-line inference (codebase.py)\<close>

text \<open>
  \<^verbatim>\<open>SymbolInfo\<close> is the dataclass of \<^verbatim>\<open>codebase.py\<close>: a name, a kind and an inclusive line
  range. Line numbers are Python integers.
\<close>

record SymbolInfo =
  name :: string
  kind :: string
  line_start :: int
  line_end :: int

text \<open>
  The loop of \<^verbatim>\<open>_fill_symbol_line_ends\<close>, after the sort: it walks the list by index and
  overwrites \<^verbatim>\<open>line_end\<close> only, reading the untouched \<^verbatim>\<open>line_start\<close> of the next entry.
\<close>

fun fill_ends :: "SymbolInfo list \<Rightarrow> int \<Rightarrow> SymbolInfo list" where
  "fill_ends [] total_lines = []"
| "fill_ends [s] total_lines = [s\<lparr>line_end := total_lines\<rparr>]"
| "fill_ends (s # t # rest) total_lines =
     s\<lparr>line_end := max (line_start s) (line_start t - 1)\<rparr> # fill_ends (t # rest) total_lines"

text \<open>
  \<^verbatim>\<open>symbols.sort(key=lambda s: s.line_start)\<close> is a stable sort, as \<^const>\<open>sort_key\<close> is.
\<close>

definition fill_symbol_line_ends :: "SymbolInfo list \<Rightarrow> int \<Rightarrow> SymbolInfo list" where
  "fill_symbol_line_ends symbols total_lines = fill_ends (sort_key line_start symbols) total_lines"

definition mk_symbol :: "string \<Rightarrow> string \<Rightarrow> int \<Rightarrow> SymbolInfo" where
  "mk_symbol n k l = \<lparr>name = n, kind = k, line_start = l, line_end = l\<rparr>"

section \<open>Regular expressions (the patterns of codebase.py)\<close>

text \<open>
  The character classes of Python's \<^verbatim>\<open>re\<close> on \<^verbatim>\<open>str\<close> patterns, for the code points 0 to
  255: \<^verbatim>\<open>\s\<close> (which is also what \<^verbatim>\<open>str.strip\<close> removes), \<^verbatim>\<open>[A-Za-z0-9_]\<close>, and the word
  characters \<^verbatim>\<open>\w\<close> that decide \<^verbatim>\<open>\b\<close>.
\<close>

definition is_space :: "char \<Rightarrow> bool" where
  "is_space c \<longleftrightarrow> (let n = (of_char c :: nat) in (9 \<le> n \<and> n \<le> 13) \<or> (28 \<le> n \<and> n \<le> 32) \<or> n = 133 \<or> n = 160)"

definition is_ident :: "char \<Rightarrow> bool" where
  "is_ident c \<longleftrightarrow> (let n = (of_char c :: nat) in
     (48 \<le> n \<and> n \<le> 57) \<or> (65 \<le> n \<and> n \<le> 90) \<or> n = 95 \<or> (97 \<le> n \<and> n \<le> 122))"

definition is_word :: "char \<Rightarrow> bool" where
  "is_word c \<longleftrightarrow> (let n = (of_char c :: nat) in
     (48 \<le> n \<and> n \<le> 57) \<or> (65 \<le> n \<and> n \<le> 90) \<or> n = 95 \<or> (97 \<le> n \<and> n \<le> 122) \<or>
     n = 170 \<or> n = 178 \<or> n = 179 \<or> n = 181 \<or> n = 185 \<or> n = 186 \<or> (188 \<le> n \<and> n \<le> 190) \<or>
     (192 \<le> n \<and> n \<le> 214) \<or> (216 \<le> n \<and> n \<le> 246) \<or> (248 \<le> n \<and> n \<le> 255))"

text \<open>
  Regular expressions with greedy repetition, capture groups, \<^verbatim>\<open>^\<close> and \<^verbatim>\<open>\b\<close>. A matching
  state is the character before the position (if any), the rest of the input, and the
  groups captured so far. \<open>run r st\<close> lists every state in which a match of \<open>r\<close>
  from \<open>st\<close> can end, in the order a backtracking matcher tries them, so the head of the
  list is the match that \<^verbatim>\<open>re\<close> reports.
\<close>

datatype rx =
    Lit string
  | Cls "char \<Rightarrow> bool"
  | Seq rx rx
  | Alt rx rx
  | Opt rx
  | Star rx
  | Plus rx
  | Grp nat rx
  | Bol
  | WordB

type_synonym mstate = "char option \<times> string \<times> (nat \<times> string) list"

text \<open>
  Greedy repetition: one more iteration first, stopping here last. An iteration has to
  consume input; the fuel is the length of the remaining input, which is enough.
\<close>

fun star :: "(mstate \<Rightarrow> mstate list) \<Rightarrow> nat \<Rightarrow> mstate \<Rightarrow> mstate list" where
  "star f 0 st = [st]"
| "star f (Suc k) st =
     concat (map (\<lambda>st'. if length (fst (snd st')) < length (fst (snd st)) then star f k st' else []) (f st)) @ [st]"

definition word_at :: "char option \<Rightarrow> bool" where
  "word_at p = (case p of None \<Rightarrow> False | Some c \<Rightarrow> is_word c)"

primrec run :: "rx \<Rightarrow> mstate \<Rightarrow> mstate list" where
  "run (Lit w) = (\<lambda>(p, s, g). if take (length w) s = w
       then [(if w = [] then p else Some (last w), drop (length w) s, g)] else [])"
| "run (Cls P) = (\<lambda>(p, s, g). case s of [] \<Rightarrow> [] | c # cs \<Rightarrow> if P c then [(Some c, cs, g)] else [])"
| "run (Seq a b) = (\<lambda>st. concat (map (run b) (run a st)))"
| "run (Alt a b) = (\<lambda>st. run a st @ run b st)"
| "run (Opt a) = (\<lambda>st. run a st @ [st])"
| "run (Star a) = (\<lambda>st. star (run a) (length (fst (snd st))) st)"
| "run (Plus a) = (\<lambda>st. concat (map (\<lambda>st'. star (run a) (length (fst (snd st'))) st') (run a st)))"
| "run (Grp n a) = (\<lambda>(p, s, g). map (\<lambda>(p', s', g'). (p', s', (n, take (length s - length s') s) # g')) (run a (p, s, g)))"
| "run Bol = (\<lambda>(p, s, g). if p = None then [(p, s, g)] else [])"
| "run WordB = (\<lambda>(p, s, g). if word_at p \<noteq> word_at (case s of [] \<Rightarrow> None | c # _ \<Rightarrow> Some c) then [(p, s, g)] else [])"

fun seqs :: "rx list \<Rightarrow> rx" where
  "seqs [] = Lit []"
| "seqs [r] = r"
| "seqs (r # rs) = Seq r (seqs rs)"

text \<open>
  \<^verbatim>\<open>pattern.match(line)\<close> tries position 0 only, \<^verbatim>\<open>pattern.search(line)\<close> every position from
  left to right. Both return the groups of the first match. \<open>group n\<close> reads a group;
  every group read by the extractors takes part in every match of its pattern.
\<close>

definition re_match :: "rx \<Rightarrow> string \<Rightarrow> (nat \<times> string) list option" where
  "re_match r line = (case run r (None, line, []) of [] \<Rightarrow> None | (p, s, g) # _ \<Rightarrow> Some g)"

fun search_from :: "rx \<Rightarrow> char option \<Rightarrow> string \<Rightarrow> (nat \<times> string) list option" where
  "search_from r p [] = (case run r (p, [], []) of [] \<Rightarrow> None | (p', s', g) # _ \<Rightarrow> Some g)"
| "search_from r p (c # cs) =
     (case run r (p, c # cs, []) of [] \<Rightarrow> search_from r (Some c) cs | (p', s', g) # _ \<Rightarrow> Some g)"

definition re_search :: "rx \<Rightarrow> string \<Rightarrow> (nat \<times> string) list option" where
  "re_search r line = search_from r None line"

definition group :: "nat \<Rightarrow> (nat \<times> string) list \<Rightarrow> string" where
  "group n g = (case map_of g n of None \<Rightarrow> [] | Some s \<Rightarrow> s)"

text \<open>
  The six compiled patterns:
  \<^verbatim>\<open>CLASS_RE = \bclass\s+([A-Za-z0-9_]+)\<close>,
  \<^verbatim>\<open>TS_FUNCTION_RE = \bfunction\s+([A-Za-z0-9_]+)\s*\(\<close>,
  \<^verbatim>\<open>TS_METHOD_RE = ^\s*(public|protected|private)?\s*(static\s+)?(async\s+)?([A-Za-z0-9_]+)\s*\(\<close>,
  \<^verbatim>\<open>TS_ARROW_METHOD_RE = ^\s*(public|protected|private)?\s*(static\s+)?([A-Za-z0-9_]+)\s*=\s*(async\s+)?\(\<close>,
  \<^verbatim>\<open>PY_DEF_RE = ^\s*def\s+([A-Za-z0-9_]+)\s*\(\<close> and
  \<^verbatim>\<open>PY_CLASS_RE = ^\s*class\s+([A-Za-z0-9_]+)\<close>.
\<close>

definition CLASS_RE :: rx where
  "CLASS_RE = seqs [WordB, Lit ''class'', Plus (Cls is_space), Grp 1 (Plus (Cls is_ident))]"

definition TS_FUNCTION_RE :: rx where
  "TS_FUNCTION_RE = seqs [WordB, Lit ''function'', Plus (Cls is_space), Grp 1 (Plus (Cls is_ident)),
     Star (Cls is_space), Lit ''('']"

definition TS_METHOD_RE :: rx where
  "TS_METHOD_RE = seqs [Bol, Star (Cls is_space),
     Opt (Grp 1 (Alt (Lit ''public'') (Alt (Lit ''protected'') (Lit ''private'')))),
     Star (Cls is_space),
     Opt (Grp 2 (Seq (Lit ''static'') (Plus (Cls is_space)))),
     Opt (Grp 3 (Seq (Lit ''async'') (Plus (Cls is_space)))),
     Grp 4 (Plus (Cls is_ident)), Star (Cls is_space), Lit ''('']"

definition TS_ARROW_METHOD_RE :: rx where
  "TS_ARROW_METHOD_RE = seqs [Bol, Star (Cls is_space),
     Opt (Grp 1 (Alt (Lit ''public'') (Alt (Lit ''protected'') (Lit ''private'')))),
     Star (Cls is_space),
     Opt (Grp 2 (Seq (Lit ''static'') (Plus (Cls is_space)))),
     Grp 3 (Plus (Cls is_ident)), Star (Cls is_space), Lit ''='', Star (Cls is_space),
     Opt (Grp 4 (Seq (Lit ''async'') (Plus (Cls is_space)))), Lit ''('']"

definition PY_DEF_RE :: rx where
  "PY_DEF_RE = seqs [Bol, Star (Cls is_space), Lit ''def'', Plus (Cls is_space),
     Grp 1 (Plus (Cls is_ident)), Star (Cls is_space), Lit ''('']"

definition PY_CLASS_RE :: rx where
  "PY_CLASS_RE = seqs [Bol, Star (Cls is_space), Lit ''class'', Plus (Cls is_space),
     Grp 1 (Plus (Cls is_ident))]"

section \<open>Symbol extraction (codebase.py)\<close>

text \<open>
  \<^verbatim>\<open>_extract_typescript_symbols\<close>. The loop state is the symbol list, the running brace
  depth and the class stack; the stack is kept with its top \<^verbatim>\<open>class_stack[-1]\<close> at the
  head of the list. \<^verbatim>\<open>current_class\<close> is tested for truth, so an empty name counts as none.
\<close>

record ts_state =
  ts_symbols :: "SymbolInfo list"
  ts_brace_depth :: int
  ts_class_stack :: "(string \<times> int) list"

definition count_char :: "char \<Rightarrow> string \<Rightarrow> nat" where
  "count_char c line = length (filter (\<lambda>d. d = c) line)"

fun pop_closed :: "int \<Rightarrow> (string \<times> int) list \<Rightarrow> (string \<times> int) list" where
  "pop_closed depth [] = []"
| "pop_closed depth ((c, d) # rest) = (if depth < d then pop_closed depth rest else (c, d) # rest)"

definition ts_step :: "ts_state \<Rightarrow> int \<Rightarrow> string \<Rightarrow> ts_state" where
  "ts_step st idx line =
     (let brace_delta = int (count_char CHR ''{'' line) - int (count_char CHR ''}'' line);
          class_stack1 = (case re_search CLASS_RE line of
                            Some m \<Rightarrow> (group 1 m, ts_brace_depth st + max brace_delta 1) # ts_class_stack st
                          | None \<Rightarrow> ts_class_stack st);
          current_class = (case class_stack1 of [] \<Rightarrow> [] | (c, d) # _ \<Rightarrow> c);
          symbols1 = (case re_match TS_METHOD_RE line of
                        Some m \<Rightarrow> if current_class \<noteq> []
                                  then ts_symbols st @ [mk_symbol (current_class @ ''.'' @ group 4 m) ''method'' idx]
                                  else ts_symbols st
                      | None \<Rightarrow> ts_symbols st);
          symbols2 = (case re_match TS_ARROW_METHOD_RE line of
                        Some m \<Rightarrow> if current_class \<noteq> []
                                  then symbols1 @ [mk_symbol (current_class @ ''.'' @ group 3 m) ''method'' idx]
                                  else symbols1
                      | None \<Rightarrow> symbols1);
          symbols3 = (case re_search TS_FUNCTION_RE line of
                        Some m \<Rightarrow> symbols2 @ [mk_symbol (group 1 m) ''function'' idx]
                      | None \<Rightarrow> symbols2);
          brace_depth1 = ts_brace_depth st + brace_delta
      in \<lparr>ts_symbols = symbols3, ts_brace_depth = brace_depth1,
          ts_class_stack = pop_closed brace_depth1 class_stack1\<rparr>)"

fun ts_loop :: "ts_state \<Rightarrow> int \<Rightarrow> string list \<Rightarrow> ts_state" where
  "ts_loop st idx [] = st"
| "ts_loop st idx (line # rest) = ts_loop (ts_step st idx line) (idx + 1) rest"

definition extract_typescript_symbols :: "string list \<Rightarrow> SymbolInfo list" where
  "extract_typescript_symbols lines =
     ts_symbols (ts_loop \<lparr>ts_symbols = [], ts_brace_depth = 0, ts_class_stack = []\<rparr> 1 lines)"

text \<open>
  \<^verbatim>\<open>_extract_python_symbols\<close>. The indentation is the number of leading whitespace
  characters, \<^verbatim>\<open>len(line) - len(line.lstrip())\<close>. The stack is popped while the top's
  indentation is at least the line's, before the line is looked at. A class line pushes
  and records a class and ends the iteration; a def line records a function, qualified by
  the top of the stack if there is one.
\<close>

record py_state =
  py_symbols :: "SymbolInfo list"
  py_class_stack :: "(string \<times> nat) list"

definition lstrip :: "string \<Rightarrow> string" where
  "lstrip line = dropWhile is_space line"

definition indent_of :: "string \<Rightarrow> nat" where
  "indent_of line = length line - length (lstrip line)"

fun pop_dedented :: "nat \<Rightarrow> (string \<times> nat) list \<Rightarrow> (string \<times> nat) list" where
  "pop_dedented indent [] = []"
| "pop_dedented indent ((c, i) # rest) = (if indent \<le> i then pop_dedented indent rest else (c, i) # rest)"

definition py_step :: "py_state \<Rightarrow> int \<Rightarrow> string \<Rightarrow> py_state" where
  "py_step st idx line =
     (let indent = indent_of line;
          class_stack1 = pop_dedented indent (py_class_stack st)
      in case re_match PY_CLASS_RE line of
           Some m \<Rightarrow>
             \<lparr>py_symbols = py_symbols st @ [mk_symbol (group 1 m) ''class'' idx],
               py_class_stack = (group 1 m, indent) # class_stack1\<rparr>
         | None \<Rightarrow>
             (case re_match PY_DEF_RE line of
                Some m \<Rightarrow>
                  (let func_name = (case class_stack1 of
                                      [] \<Rightarrow> group 1 m
                                    | (c, i) # _ \<Rightarrow> c @ ''.'' @ group 1 m)
                   in \<lparr>py_symbols = py_symbols st @ [mk_symbol func_name ''function'' idx],
                        py_class_stack = class_stack1\<rparr>)
              | None \<Rightarrow> \<lparr>py_symbols = py_symbols st, py_class_stack = class_stack1\<rparr>))"

fun py_loop :: "py_state \<Rightarrow> int \<Rightarrow> string list \<Rightarrow> py_state" where
  "py_loop st idx [] = st"
| "py_loop st idx (line # rest) = py_loop (py_step st idx line) (idx + 1) rest"

definition extract_python_symbols :: "string list \<Rightarrow> SymbolInfo list" where
  "extract_python_symbols lines =
     py_symbols (py_loop \<lparr>py_symbols = [], py_class_stack = []\<rparr> 1 lines)"

text \<open>Sample sources: a TypeScript class with two methods, and a Python class with a blank
  line followed by a nested class.\<close>

definition ts_class_sample :: "string list" where
  "ts_class_sample = [''class Foo {'', ''  m1() {'', ''  }'', ''  m2() {'', ''  }'', ''}'']"

definition py_nested_sample :: "string list" where
  "py_nested_sample = [''class A:'', ''    x = 1'', [], ''    class B:'', ''        def f(self):'']"

section \<open>Candidate selection (codebase.py)\<close>

text \<open>
  A path is the list of its segments, \<^verbatim>\<open>Path.parts\<close>. \<^verbatim>\<open>Path.suffix\<close> is the final segment
  from its last dot on, unless that dot is its first or its last character;
  \<^verbatim>\<open>str.lower\<close> maps the upper-case letters among the code points 0 to 255 to lower case.
\<close>

definition lower_char :: "char \<Rightarrow> char" where
  "lower_char c = (let n = (of_char c :: nat) in
     if (65 \<le> n \<and> n \<le> 90) \<or> (192 \<le> n \<and> n \<le> 222 \<and> n \<noteq> 215) then char_of (n + 32) else c)"

definition lower :: "string \<Rightarrow> string" where
  "lower s = map lower_char s"

fun rfind_dot :: "string \<Rightarrow> nat option" where
  "rfind_dot [] = None"
| "rfind_dot (c # cs) =
     (case rfind_dot cs of
        Some i \<Rightarrow> Some (Suc i)
      | None \<Rightarrow> if c = CHR ''.'' then Some 0 else None)"

definition path_name :: "string list \<Rightarrow> string" where
  "path_name parts = (case parts of [] \<Rightarrow> [] | _ \<Rightarrow> last parts)"

definition suffix :: "string list \<Rightarrow> string" where
  "suffix parts =
     (let name = path_name parts in
      case rfind_dot name of
        Some i \<Rightarrow> if 0 < i \<and> i < length name - 1 then drop i name else []
      | None \<Rightarrow> [])"

definition SOURCE_EXTENSIONS :: "(string \<times> string) list" where
  "SOURCE_EXTENSIONS =
     [(''.py'', ''Python''), (''.ts'', ''TypeScript''), (''.tsx'', ''TypeScript''),
      (''.js'', ''JavaScript''), (''.jsx'', ''JavaScript''), (''.java'', ''Java''),
      (''.go'', ''Go''), (''.rs'', ''Rust''), (''.cs'', ''C#''), (''.rb'', ''Ruby''),
      (''.php'', ''PHP''), (''.swift'', ''Swift''), (''.kt'', ''Kotlin''), (''.c'', ''C''),
      (''.h'', ''C''), (''.cpp'', ''C++''), (''.hpp'', ''C++''), (''.m'', ''Objective-C''),
      (''.scala'', ''Scala''), (''.sql'', ''SQL''), (''.yaml'', ''YAML''), (''.yml'', ''YAML''),
      (''.json'', ''JSON''), (''.md'', ''Markdown'')]"

definition SKIP_EXTENSIONS :: "string list" where
  "SKIP_EXTENSIONS =
     [''.png'', ''.jpg'', ''.jpeg'', ''.gif'', ''.bmp'', ''.ico'', ''.svg'', ''.pdf'', ''.lock'',
      ''.bin'', ''.exe'', ''.dll'', ''.so'', ''.dylib'']"

definition SKIP_DIR_NAMES :: "string list" where
  "SKIP_DIR_NAMES =
     [''__pycache__'', ''.git'', ''.hg'', ''.svn'', ''.venv'', ''venv'', ''env'', ''node_modules'',
      ''dist'', ''build'', ''out'', ''coverage'', ''.idea'', ''.vscode'', ''.pytest_cache'']"

text \<open>The fields of \<^verbatim>\<open>Settings\<close> that selection and chunking read.\<close>

record Settings =
  max_candidate_files :: int
  max_file_bytes :: int
  max_tokens_per_chunk :: int

text \<open>
  The directory tree as \<^verbatim>\<open>root.rglob("*")\<close> reports it: the entries below the root in
  discovery order, each with its segments relative to the root, whether it is a regular
  file, and its size \<^verbatim>\<open>stat().st_size\<close>. The full path of an entry is the root's segments
  followed by its own.
\<close>

record entry =
  rel_parts :: "string list"
  is_file :: bool
  st_size :: nat

text \<open>
  \<^verbatim>\<open>FileCandidate\<close>. The weight is a double-precision float in the source; its arithmetic
  is not modelled, and selection is parametric in the function \<^verbatim>\<open>compute_weight\<close>, into
  any linear order.
\<close>

record 'w FileCandidate =
  path :: "string list"
  relative_path :: "string list"
  language :: string
  size_bytes :: nat
  weight :: 'w

text \<open>\<^verbatim>\<open>iter_source_files\<close>: the generator, as the list of the paths it yields.\<close>

fun iter_source_files :: "string list \<Rightarrow> entry list \<Rightarrow> entry list" where
  "iter_source_files root [] = []"
| "iter_source_files root (e # es) =
     (if \<not> is_file e then iter_source_files root es
      else if lower (suffix (root @ rel_parts e)) \<in> set SKIP_EXTENSIONS then iter_source_files root es
      else if \<exists>part \<in> set (root @ rel_parts e). part \<in> set SKIP_DIR_NAMES then iter_source_files root es
      else e # iter_source_files root es)"

text \<open>
  The loop of \<^verbatim>\<open>collect_source_candidates\<close>, with the list \<^verbatim>\<open>candidates\<close> as accumulator.
  \<^verbatim>\<open>if not language\<close> skips a missing and an empty language alike.
\<close>

fun collect_loop ::
  "(string list \<Rightarrow> nat \<Rightarrow> string \<Rightarrow> 'w) \<Rightarrow> string list \<Rightarrow> Settings \<Rightarrow>
   'w FileCandidate list \<Rightarrow> entry list \<Rightarrow> 'w FileCandidate list" where
  "collect_loop compute_weight root settings candidates [] = candidates"
| "collect_loop compute_weight root settings candidates (e # es) =
     (let size = st_size e in
      if size = 0 \<or> int size > max_file_bytes settings
      then collect_loop compute_weight root settings candidates es
      else (case map_of SOURCE_EXTENSIONS (lower (suffix (root @ rel_parts e))) of
              None \<Rightarrow> collect_loop compute_weight root settings candidates es
            | Some lang \<Rightarrow>
                if lang = [] then collect_loop compute_weight root settings candidates es
                else collect_loop compute_weight root settings
                       (candidates @
                          [\<lparr>path = root @ rel_parts e, relative_path = rel_parts e, language = lang,
                            size_bytes = size, weight = compute_weight (rel_parts e) size lang\<rparr>])
                       es))"

text \<open>
  \<^verbatim>\<open>candidates.sort(key=..., reverse=True)\<close>: the list is reversed, sorted stably in
  ascending order and reversed again, which keeps equal keys in their original order.
  \<^verbatim>\<open>candidates[:m]\<close> counts a negative \<^verbatim>\<open>m\<close> from the end of the list.
\<close>

definition sort_reverse :: "('a \<Rightarrow> 'k::linorder) \<Rightarrow> 'a list \<Rightarrow> 'a list" where
  "sort_reverse key xs = rev (sort_key key (rev xs))"

definition slice_to :: "'a list \<Rightarrow> int \<Rightarrow> 'a list" where
  "slice_to xs m = (if 0 \<le> m then take (nat m) xs else take (nat (int (length xs) + m)) xs)"

definition collect_source_candidates ::
  "(string list \<Rightarrow> nat \<Rightarrow> string \<Rightarrow> 'w::linorder) \<Rightarrow> string list \<Rightarrow> entry list \<Rightarrow> Settings \<Rightarrow>
   'w FileCandidate list" where
  "collect_source_candidates compute_weight root tree settings =
     (let candidates = collect_loop compute_weight root settings [] (iter_source_files root tree);
          candidates = sort_reverse weight candidates
      in if int (length candidates) > max_candidate_files settings
         then slice_to candidates (max_candidate_files settings)
         else candidates)"

text \<open>
  The candidate \<open>c\<close> was built from the entry \<open>e\<close>: what one passage through the loop body
  of \<^verbatim>\<open>collect_source_candidates\<close> establishes.
\<close>

definition candidate_of :: "string list \<Rightarrow> Settings \<Rightarrow> entry \<Rightarrow> 'w FileCandidate \<Rightarrow> bool" where
  "candidate_of root settings e c \<longleftrightarrow>
     path c = root @ rel_parts e \<and> relative_path c = rel_parts e \<and> size_bytes c = st_size e \<and>
     0 < st_size e \<and> int (st_size e) \<le> max_file_bytes settings \<and>
     map_of SOURCE_EXTENSIONS (lower (suffix (root @ rel_parts e))) = Some (language c) \<and>
     language c \<noteq> []"

text \<open>
  A sample tree below the root \<^verbatim>\<open>repo\<close> with two source files, a dependency directory and
  an image, and settings with a given candidate limit.
\<close>

definition two_files :: "entry list" where
  "two_files =
     [\<lparr>rel_parts = [''src''], is_file = False, st_size = 4096\<rparr>,
      \<lparr>rel_parts = [''src'', ''a.py''], is_file = True, st_size = 10\<rparr>,
      \<lparr>rel_parts = [''src'', ''B.TS''], is_file = True, st_size = 20\<rparr>,
      \<lparr>rel_parts = [''node_modules'', ''c.js''], is_file = True, st_size = 30\<rparr>,
      \<lparr>rel_parts = [''logo.png''], is_file = True, st_size = 40\<rparr>]"

definition demo_settings :: "int \<Rightarrow> Settings" where
  "demo_settings n = \<lparr>max_candidate_files = n, max_file_bytes = 200000, max_tokens_per_chunk = 1800\<rparr>"

section \<open>Text utilities\<close>

text \<open>
  Python's \<^verbatim>\<open>str\<close> is modelled as \<^typ>\<open>string\<close>: a list of 8-bit characters, read as the code
  points 0 to 255. \<^verbatim>\<open>str.splitlines\<close> splits at every line boundary; the boundaries among
  these code points are LF, VT, FF, CR, FS, GS, RS and NEL, and CR LF counts as one. A
  final piece is reported only when it is not empty.
\<close>

definition is_linebreak :: "char \<Rightarrow> bool" where
  "is_linebreak c \<longleftrightarrow>
     c \<in> {CHR 0x0A, CHR 0x0B, CHR 0x0C, CHR 0x0D, CHR 0x1C, CHR 0x1D, CHR 0x1E, CHR 0x85}"

fun splitlines_from :: "string \<Rightarrow> string \<Rightarrow> string list" where
  "splitlines_from cur [] = (if cur = [] then [] else [cur])"
| "splitlines_from cur (c # cs) =
     (if c = CHR 0x0D then
        (case cs of
           d # ds \<Rightarrow> if d = CHR 0x0A then cur # splitlines_from [] ds else cur # splitlines_from [] cs
         | [] \<Rightarrow> cur # splitlines_from [] cs)
      else if is_linebreak c then cur # splitlines_from [] cs
      else splitlines_from (cur @ [c]) cs)"

definition splitlines :: "string \<Rightarrow> string list" where
  "splitlines text = splitlines_from [] text"

text \<open>\<^verbatim>\<open>sep.join(parts)\<close>.\<close>

fun join :: "string \<Rightarrow> string list \<Rightarrow> string" where
  "join sep [] = []"
| "join sep [x] = x"
| "join sep (x # y # ys) = x @ sep @ join sep (y # ys)"

text \<open>
  The format specification \<^verbatim>\<open>{line_number:04}\<close>: the decimal digits, zero-padded to a
  width of at least four characters, the sign counting as one of them.
\<close>

function decimal :: "nat \<Rightarrow> string" where
  "decimal n =
     (if n < 10 then [''0123456789'' ! n] else decimal (n div 10) @ [''0123456789'' ! (n mod 10)])"
  by pat_completeness auto
termination
  by (relation "measure id") auto

declare decimal.simps [simp del]

definition zfill :: "nat \<Rightarrow> string \<Rightarrow> string" where
  "zfill w s = replicate (w - length s) CHR ''0'' @ s"

definition format_04 :: "int \<Rightarrow> string" where
  "format_04 n =
     (if n < 0 then CHR ''-'' # zfill 3 (decimal (nat (- n))) else zfill 4 (decimal (nat n)))"

section \<open>Token-bounded chunking (summarizer.py)\<close>

text \<open>
  \<^verbatim>\<open>CodeChunk\<close> is the dataclass of \<^verbatim>\<open>summarizer.py\<close>; its field \<^verbatim>\<open>text\<close> is written
  \<open>text'\<close> here.
\<close>

record CodeChunk =
  text' :: string
  start_line :: int
  end_line :: int

text \<open>The local variables of \<^verbatim>\<open>_chunk_text\<close> that the loop updates.\<close>

record chunk_state =
  chunks :: "CodeChunk list"
  current_lines :: "string list"
  current_tokens :: nat
  chunk_start_line :: int

text \<open>
  \<^verbatim>\<open>formatted = f"{line_number:04}: {line}"\<close> and the token count of the decorated line
  with its newline. The encoder \<^verbatim>\<open>self.encoding.encode\<close> is a parameter: any function from
  text to a list of tokens.
\<close>

definition formatted_line :: "int \<Rightarrow> string \<Rightarrow> string" where
  "formatted_line line_number line = format_04 line_number @ '': '' @ line"

definition token_count :: "(string \<Rightarrow> 'tok list) \<Rightarrow> int \<Rightarrow> string \<Rightarrow> nat" where
  "token_count encode line_number line = length (encode (formatted_line line_number line @ [CHR 0x0A]))"

text \<open>One iteration of the \<^verbatim>\<open>for line_number, line in enumerate(lines, start=1)\<close> loop.\<close>

definition chunk_step ::
  "(string \<Rightarrow> 'tok list) \<Rightarrow> int \<Rightarrow> chunk_state \<Rightarrow> int \<Rightarrow> string \<Rightarrow> chunk_state" where
  "chunk_step encode max_tokens st line_number line =
     (let formatted = formatted_line line_number line;
          tc = token_count encode line_number line;
          st1 = (if current_lines st \<noteq> [] \<and> int (current_tokens st) + int tc > max_tokens
                 then st\<lparr>chunks := chunks st @
                            [\<lparr>text' = join [CHR 0x0A] (current_lines st),
                              start_line = chunk_start_line st,
                              end_line = line_number - 1\<rparr>],
                         current_lines := [],
                         current_tokens := 0,
                         chunk_start_line := line_number\<rparr>
                 else st);
          st2 = (if current_lines st1 = [] then st1\<lparr>chunk_start_line := line_number\<rparr> else st1)
      in st2\<lparr>current_lines := current_lines st2 @ [formatted],
              current_tokens := current_tokens st2 + tc\<rparr>)"

fun chunk_loop ::
  "(string \<Rightarrow> 'tok list) \<Rightarrow> int \<Rightarrow> chunk_state \<Rightarrow> int \<Rightarrow> string list \<Rightarrow> chunk_state" where
  "chunk_loop encode max_tokens st line_number [] = st"
| "chunk_loop encode max_tokens st line_number (line # rest) =
     chunk_loop encode max_tokens (chunk_step encode max_tokens st line_number line) (line_number + 1) rest"

text \<open>The part of \<^verbatim>\<open>_chunk_text\<close> after \<^verbatim>\<open>lines = text.splitlines()\<close>.\<close>

definition chunk_lines :: "(string \<Rightarrow> 'tok list) \<Rightarrow> int \<Rightarrow> string list \<Rightarrow> CodeChunk list" where
  "chunk_lines encode max_tokens lines =
     (let st = chunk_loop encode max_tokens
                 \<lparr>chunks = [], current_lines = [], current_tokens = 0, chunk_start_line = 1\<rparr> 1 lines
      in if current_lines st \<noteq> []
         then chunks st @
                [\<lparr>text' = join [CHR 0x0A] (current_lines st),
                  start_line = chunk_start_line st,
                  end_line = int (length lines)\<rparr>]
         else chunks st)"

definition chunk_text :: "(string \<Rightarrow> 'tok list) \<Rightarrow> int \<Rightarrow> string \<Rightarrow> CodeChunk list" where
  "chunk_text encode max_tokens text =
     (if text = [] then [] else chunk_lines encode max_tokens (splitlines text))"








section \<open>Summarisation (summarizer.py)\<close>

text \<open>
  \<^verbatim>\<open>extract_symbol_table\<close>: reads the file, splits it into lines, runs the extractor of
  the language and fills in the end lines. Reading a file is a function \<^verbatim>\<open>read_text\<close>
  from paths to contents.
\<close>

definition extract_symbol_table :: "(string list \<Rightarrow> string) \<Rightarrow> string list \<Rightarrow> string \<Rightarrow> SymbolInfo list" where
  "extract_symbol_table read_text p lang =
     (let lines = splitlines (read_text p);
          symbols = (if lang = ''TypeScript'' \<or> lang = ''JavaScript'' then extract_typescript_symbols lines
                     else if lang = ''Python'' then extract_python_symbols lines
                     else []);
          total_lines = (if lines \<noteq> [] then int (length lines) else 1)
      in fill_symbol_line_ends symbols total_lines)"

text \<open>
  \<^verbatim>\<open>FileSummary\<close>; its fields carry the prefix \<open>fs_\<close> here, to keep them apart from those
  of \<^verbatim>\<open>FileCandidate\<close>.
\<close>

record FileSummary =
  fs_path :: "string list"
  fs_relative_path :: "string list"
  fs_language :: string
  fs_summary :: string
  fs_symbols :: "SymbolInfo list"

text \<open>
  The call to the language model, \<^verbatim>\<open>_summarize_chunk\<close>, is a parameter: a function of the
  chunk, the candidate and the problem description that returns the summary text or
  fails with an \<^verbatim>\<open>OpenAIError\<close>, the exception the loop catches.
\<close>

datatype OpenAIError = OpenAIError string

definition strip :: "string \<Rightarrow> string" where
  "strip s = rev (dropWhile is_space (rev (dropWhile is_space s)))"

definition combine_chunk_summaries :: "string list \<Rightarrow> string" where
  "combine_chunk_summaries chunk_summaries =
     (if length chunk_summaries = 1 then hd chunk_summaries
      else ''Key points:'' @ [CHR 0x0A] @ join [CHR 0x0A] (map (\<lambda>s. ''- '' @ strip s) chunk_summaries))"

text \<open>The inner loop over the chunks of one file: a failing call is skipped.\<close>

fun summarize_chunks ::
  "(CodeChunk \<Rightarrow> 'c \<Rightarrow> string \<Rightarrow> OpenAIError + string) \<Rightarrow> 'c \<Rightarrow> string \<Rightarrow>
   string list \<Rightarrow> CodeChunk list \<Rightarrow> string list" where
  "summarize_chunks summarize_chunk candidate problem chunk_summaries [] = chunk_summaries"
| "summarize_chunks summarize_chunk candidate problem chunk_summaries (chunk # rest) =
     (case summarize_chunk chunk candidate problem of
        Inl exc \<Rightarrow> summarize_chunks summarize_chunk candidate problem chunk_summaries rest
      | Inr chunk_summary \<Rightarrow>
          summarize_chunks summarize_chunk candidate problem (chunk_summaries @ [chunk_summary]) rest)"

text \<open>The outer loop of \<^verbatim>\<open>summarize_candidates\<close>, with the list \<^verbatim>\<open>summaries\<close> as accumulator.\<close>

fun summarize_loop ::
  "(string list \<Rightarrow> string) \<Rightarrow> (string \<Rightarrow> 'tok list) \<Rightarrow> Settings \<Rightarrow>
   (CodeChunk \<Rightarrow> 'w FileCandidate \<Rightarrow> string \<Rightarrow> OpenAIError + string) \<Rightarrow> string \<Rightarrow>
   FileSummary list \<Rightarrow> 'w FileCandidate list \<Rightarrow> FileSummary list" where
  "summarize_loop read_text encode settings summarize_chunk problem summaries [] = summaries"
| "summarize_loop read_text encode settings summarize_chunk problem summaries (candidate # rest) =
     (let chunks = chunk_text encode (max_tokens_per_chunk settings) (read_text (path candidate)) in
      if chunks = [] then summarize_loop read_text encode settings summarize_chunk problem summaries rest
      else
        (let symbols = extract_symbol_table read_text (path candidate) (language candidate);
             chunk_summaries = summarize_chunks summarize_chunk candidate problem [] chunks
         in if chunk_summaries = []
            then summarize_loop read_text encode settings summarize_chunk problem summaries rest
            else summarize_loop read_text encode settings summarize_chunk problem
                   (summaries @
                      [\<lparr>fs_path = path candidate, fs_relative_path = relative_path candidate,
                        fs_language = language candidate,
                        fs_summary = combine_chunk_summaries chunk_summaries,
                        fs_symbols = symbols\<rparr>])
                   rest))"

definition summarize_candidates ::
  "(string list \<Rightarrow> string) \<Rightarrow> (string \<Rightarrow> 'tok list) \<Rightarrow> Settings \<Rightarrow>
   (CodeChunk \<Rightarrow> 'w FileCandidate \<Rightarrow> string \<Rightarrow> OpenAIError + string) \<Rightarrow>
   'w FileCandidate list \<Rightarrow> string \<Rightarrow> FileSummary list" where
  "summarize_candidates read_text encode settings summarize_chunk candidates problem =
     summarize_loop read_text encode settings summarize_chunk problem [] candidates"


text \<open>
  Two sample candidates with one-line files, and a language-model call that fails for
  every chunk of the first and succeeds for the second.
\<close>

definition cand_a :: "int FileCandidate" where
  "cand_a = \<lparr>path = [''repo'', ''a.py''], relative_path = [''a.py''], language = ''Python'',
              size_bytes = 5, weight = 0\<rparr>"

definition cand_b :: "int FileCandidate" where
  "cand_b = \<lparr>path = [''repo'', ''b.py''], relative_path = [''b.py''], language = ''Python'',
              size_bytes = 5, weight = 0\<rparr>"

definition demo_read_text :: "string list \<Rightarrow> string" where
  "demo_read_text p = (if p = [''repo'', ''a.py''] then ''x = 1'' else ''y = 2'')"

definition demo_call :: "CodeChunk \<Rightarrow> int FileCandidate \<Rightarrow> string \<Rightarrow> OpenAIError + string" where
  "demo_call chunk c problem =
     (if path c = [''repo'', ''a.py''] then Inl (OpenAIError ''rate limit'') else Inr ''sets y'')"

section \<open>Report validation (report.py)\<close>

text \<open>
  The values \<^verbatim>\<open>json.loads\<close> returns: \<^verbatim>\<open>None\<close>, booleans, integers, floats (kept as their
  literal, which nothing here inspects), strings, lists and dictionaries (as association
  lists). \<^verbatim>\<open>json.loads\<close> itself is library code and a parameter of \<open>validate_report\<close>: a
  function from text to a value, or to nothing where it raises \<^verbatim>\<open>JSONDecodeError\<close>.
\<close>

datatype json =
    JNull
  | JBool bool
  | JInt int
  | JFloat string
  | JStr string
  | JArr "json list"
  | JObj "(string \<times> json) list"

datatype py_error = ReportGenerationError string | TypeError string

text \<open>
  Python's \<^verbatim>\<open>key in data\<close> for a string \<^verbatim>\<open>key\<close>: a key test on a dictionary, an element
  test on a list, a substring test on a string, and a \<^verbatim>\<open>TypeError\<close> on every other value.
\<close>

fun is_substring :: "string \<Rightarrow> string \<Rightarrow> bool" where
  "is_substring k [] \<longleftrightarrow> k = []"
| "is_substring k (c # cs) \<longleftrightarrow> take (length k) (c # cs) = k \<or> is_substring k cs"

fun contains :: "string \<Rightarrow> json \<Rightarrow> py_error + bool" where
  "contains k (JObj kvs) = Inr (k \<in> set (map fst kvs))"
| "contains k (JArr xs) = Inr (JStr k \<in> set xs)"
| "contains k (JStr s) = Inr (is_substring k s)"
| "contains k JNull = Inl (TypeError ''argument of type 'NoneType' is not iterable'')"
| "contains k (JBool b) = Inl (TypeError ''argument of type 'bool' is not iterable'')"
| "contains k (JInt i) = Inl (TypeError ''argument of type 'int' is not iterable'')"
| "contains k (JFloat f) = Inl (TypeError ''argument of type 'float' is not iterable'')"

text \<open>
  \<^verbatim>\<open>_validate_report\<close>: only \<^verbatim>\<open>JSONDecodeError\<close> is caught; the two membership tests are
  evaluated left to right, the second only when the first key is present.
\<close>

definition missing_keys_message :: string where
  "missing_keys_message =
     ''Model response missing required keys 'feature_analysis' or 'execution_plan_suggestion'.''"

definition validate_report :: "(string \<Rightarrow> json option) \<Rightarrow> string \<Rightarrow> py_error + json" where
  "validate_report json_loads text =
     (case json_loads text of
        None \<Rightarrow> Inl (ReportGenerationError ''Model returned invalid JSON'')
      | Some data \<Rightarrow>
          (case contains ''feature_analysis'' data of
             Inl e \<Rightarrow> Inl e
           | Inr has_fa \<Rightarrow>
               if \<not> has_fa then Inl (ReportGenerationError missing_keys_message)
               else (case contains ''execution_plan_suggestion'' data of
                       Inl e \<Rightarrow> Inl e
                     | Inr has_eps \<Rightarrow>
                         if \<not> has_eps then Inl (ReportGenerationError missing_keys_message)
                         else Inr data)))"

text \<open>
  Three sample model outputs and the values \<^verbatim>\<open>json.loads\<close> gives for them: the texts
  \<^verbatim>\<open>null\<close>, \<^verbatim>\<open>1\<close> and \<^verbatim>\<open>["feature_analysis", "execution_plan_suggestion"]\<close>. The table
  \<open>sample_loads\<close> stands for \<^verbatim>\<open>json.loads\<close> on these three texts only.
\<close>

definition array_report_text :: string where
  "array_report_text =
     ''['' @ [CHR 0x22] @ ''feature_analysis'' @ [CHR 0x22] @ '', '' @
     [CHR 0x22] @ ''execution_plan_suggestion'' @ [CHR 0x22] @ '']''"

definition sample_loads :: "string \<Rightarrow> json option" where
  "sample_loads text =
     (if text = ''null'' then Some JNull
      else if text = ''1'' then Some (JInt 1)
      else if text = array_report_text
        then Some (JArr [JStr ''feature_analysis'', JStr ''execution_plan_suggestion''])
      else None)"

section \<open>Verified properties\<close>

subsection \<open>End-line inference\<close>

lemma length_fill_ends: "length (fill_ends xs t) = length xs"
  by (induction xs t rule: fill_ends.induct) simp_all

lemma fill_ends_line_start: "map line_start (fill_ends xs t) = map line_start xs"
  by (induction xs t rule: fill_ends.induct) simp_all

lemma fill_ends_name: "map name (fill_ends xs t) = map name xs"
  by (induction xs t rule: fill_ends.induct) simp_all

lemma fill_ends_kind: "map kind (fill_ends xs t) = map kind xs"
  by (induction xs t rule: fill_ends.induct) simp_all

lemma fill_ends_nth:
  "i < length xs \<Longrightarrow>
   line_end (fill_ends xs t ! i) =
     (if i + 1 < length xs then max (line_start (xs ! i)) (line_start (xs ! (i + 1)) - 1) else t)"
proof (induction xs t arbitrary: i rule: fill_ends.induct)
  case (1 t)
  then show ?case by simp
next
  case (2 s t)
  then show ?case by simp
next
  case (3 s u rest t)
  show ?case
  proof (cases i)
    case 0
    then show ?thesis by simp
  next
    case (Suc j)
    with 3 show ?thesis by simp
  qed
qed

lemma fill_symbol_line_ends_nth:
  assumes "i < length (fill_symbol_line_ends symbols t)"
  shows "line_end (fill_symbol_line_ends symbols t ! i) =
     (if i + 1 < length (fill_symbol_line_ends symbols t)
      then max (line_start (fill_symbol_line_ends symbols t ! i))
               (line_start (fill_symbol_line_ends symbols t ! (i + 1)) - 1)
      else t)"
proof -
  let ?xs = "sort_key line_start symbols"
  have len: "length (fill_ends ?xs t) = length ?xs"
    by (rule length_fill_ends)
  have i: "i < length ?xs"
    using assms by (simp add: fill_symbol_line_ends_def length_fill_ends)
  have st: "\<And>j. j < length ?xs \<Longrightarrow> line_start (fill_ends ?xs t ! j) = line_start (?xs ! j)"
  proof -
    fix j assume j: "j < length ?xs"
    have "line_start (fill_ends ?xs t ! j) = map line_start (fill_ends ?xs t) ! j"
      using j len by simp
    also have "\<dots> = map line_start ?xs ! j"
      by (simp only: fill_ends_line_start)
    also have "\<dots> = line_start (?xs ! j)"
      using j by simp
    finally show "line_start (fill_ends ?xs t ! j) = line_start (?xs ! j)" .
  qed
  show ?thesis
  proof (cases "i + 1 < length ?xs")
    case True
    with i st [of i] st [of "i + 1"] fill_ends_nth [OF i, of t] show ?thesis
      by (simp add: fill_symbol_line_ends_def length_fill_ends)
  next
    case False
    with i fill_ends_nth [OF i, of t] show ?thesis
      by (simp add: fill_symbol_line_ends_def length_fill_ends)
  qed
qed

text \<open>
  Claim C7. After the fill-in pass the result holds the input symbols stably sorted by start
  line, names, kinds and start lines untouched; every symbol but the last ends at the next
  symbol's start line minus 1, clamped to be at least its own start line; the last symbol
  ends at the file's total line count. Symbols starting at lines 1, 10 and 25 of a 30-line
  file receive the end lines 9, 24 and 30.
\<close>

theorem fill_symbol_line_ends_spec:
  "map name (fill_symbol_line_ends symbols t) = map name (sort_key line_start symbols) \<and>
   map kind (fill_symbol_line_ends symbols t) = map kind (sort_key line_start symbols) \<and>
   map line_start (fill_symbol_line_ends symbols t) = map line_start (sort_key line_start symbols) \<and>
   sorted (map line_start (fill_symbol_line_ends symbols t)) \<and>
   (\<forall>i < length (fill_symbol_line_ends symbols t).
      line_end (fill_symbol_line_ends symbols t ! i) =
        (if i + 1 < length (fill_symbol_line_ends symbols t)
         then max (line_start (fill_symbol_line_ends symbols t ! i))
                  (line_start (fill_symbol_line_ends symbols t ! (i + 1)) - 1)
         else t)) \<and>
   map line_end (fill_symbol_line_ends
      [mk_symbol ''a'' ''function'' 1, mk_symbol ''b'' ''function'' 10, mk_symbol ''c'' ''function'' 25] 30) = [9, 24, 30]"
proof -
  have ex: "map line_end (fill_symbol_line_ends
      [mk_symbol ''a'' ''function'' 1, mk_symbol ''b'' ''function'' 10, mk_symbol ''c'' ''function'' 25] 30) = [9, 24, 30]"
    by (simp add: fill_symbol_line_ends_def mk_symbol_def)
  have srt: "sorted (map line_start (fill_symbol_line_ends symbols t))"
    by (simp add: fill_symbol_line_ends_def fill_ends_line_start)
  show ?thesis
    using ex srt fill_symbol_line_ends_nth [of _ symbols t]
    by (simp add: fill_symbol_line_ends_def fill_ends_name fill_ends_kind fill_ends_line_start)
qed

theorem fill_symbol_line_ends_spec_witness:
  "line_end (fill_symbol_line_ends
      [mk_symbol ''c'' ''class'' 25, mk_symbol ''a'' ''function'' 1, mk_symbol ''b'' ''function'' 1] 30 ! 0) = 1 \<and>
   map name (fill_symbol_line_ends
      [mk_symbol ''c'' ''class'' 25, mk_symbol ''a'' ''function'' 1, mk_symbol ''b'' ''function'' 1] 30) = [''a'', ''b'', ''c'']"
proof -
  let ?in = "[mk_symbol ''c'' ''class'' 25, mk_symbol ''a'' ''function'' 1, mk_symbol ''b'' ''function'' 1]"
  have len: "length (fill_symbol_line_ends ?in 30) = 3"
    by (simp add: fill_symbol_line_ends_def mk_symbol_def)
  have nm: "map name (sort_key line_start ?in) = [''a'', ''b'', ''c'']"
    by (simp add: mk_symbol_def)
  have st: "map line_start (sort_key line_start ?in) = [1, 1, 25]"
    by (simp add: mk_symbol_def)
  from fill_symbol_line_ends_spec [of ?in 30]
  have a: "map name (fill_symbol_line_ends ?in 30) = map name (sort_key line_start ?in)"
    and b: "map line_start (fill_symbol_line_ends ?in 30) = map line_start (sort_key line_start ?in)"
    and c: "\<forall>i < length (fill_symbol_line_ends ?in 30).
      line_end (fill_symbol_line_ends ?in 30 ! i) =
        (if i + 1 < length (fill_symbol_line_ends ?in 30)
         then max (line_start (fill_symbol_line_ends ?in 30 ! i))
                  (line_start (fill_symbol_line_ends ?in 30 ! (i + 1)) - 1)
         else 30)"
    by blast+
  from c len have c0: "line_end (fill_symbol_line_ends ?in 30 ! 0) =
      max (line_start (fill_symbol_line_ends ?in 30 ! 0)) (line_start (fill_symbol_line_ends ?in 30 ! 1) - 1)"
    by simp
  have s0: "line_start (fill_symbol_line_ends ?in 30 ! 0) = map line_start (fill_symbol_line_ends ?in 30) ! 0"
    using len by simp
  have s1: "line_start (fill_symbol_line_ends ?in 30 ! 1) = map line_start (fill_symbol_line_ends ?in 30) ! 1"
    using len by simp
  have b': "map line_start (fill_symbol_line_ends ?in 30) = [1, 1, 25]"
    using b st by (simp only:)
  have "line_end (fill_symbol_line_ends ?in 30 ! 0) = 1"
    by (simp only: c0 s0 s1 b') simp
  moreover have "map name (fill_symbol_line_ends ?in 30) = [''a'', ''b'', ''c'']"
    using a nm by (simp only:)
  ultimately show ?thesis by (simp only:)
qed

subsection \<open>Chunking\<close>


























subsection \<open>Brace-scoped extraction\<close>

lemma ts_step_kinds:
  "\<forall>s \<in> set (ts_symbols st). kind s = ''method'' \<or> kind s = ''function'' \<Longrightarrow>
   \<forall>s \<in> set (ts_symbols (ts_step st idx line)). kind s = ''method'' \<or> kind s = ''function''"
  by (auto simp: ts_step_def Let_def mk_symbol_def split: option.splits)

lemma ts_loop_kinds:
  "\<forall>s \<in> set (ts_symbols st). kind s = ''method'' \<or> kind s = ''function'' \<Longrightarrow>
   \<forall>s \<in> set (ts_symbols (ts_loop st idx ls)). kind s = ''method'' \<or> kind s = ''function''"
proof (induction ls arbitrary: st idx)
  case Nil
  then show ?case by simp
next
  case (Cons l ls)
  from Cons.IH [OF ts_step_kinds [OF Cons.prems]] show ?case by simp
qed

lemma extract_typescript_symbols_never_class:
  "s \<in> set (extract_typescript_symbols lines) \<Longrightarrow> kind s = ''method'' \<or> kind s = ''function''"
  using ts_loop_kinds [of "\<lparr>ts_symbols = [], ts_brace_depth = 0, ts_class_stack = []\<rparr>" 1 lines]
  by (simp add: extract_typescript_symbols_def)

lemma extract_typescript_symbols_function_sample:
  "extract_typescript_symbols [''function foo() {'', ''}''] = [mk_symbol ''foo'' ''function'' 1]"
  by code_simp

text \<open>
  Claim C1. The brace-scoped extractor pushes a class on its stack but records no symbol
  for it: for the sample class \<^verbatim>\<open>Foo\<close> with the methods \<^verbatim>\<open>m1\<close> and \<^verbatim>\<open>m2\<close> it returns
  the two qualified methods only, and no symbol named \<^verbatim>\<open>Foo\<close>. (No input yields a symbol
  of kind \<^verbatim>\<open>class\<close>, by \<open>extract_typescript_symbols_never_class\<close>; a top-level function
  declaration does yield an unqualified symbol of kind \<^verbatim>\<open>function\<close>, as in
  \<open>extract_typescript_symbols_function_sample\<close>.)
\<close>

theorem extract_typescript_symbols_class_sample:
  "extract_typescript_symbols ts_class_sample =
     [mk_symbol ''Foo.m1'' ''method'' 2, mk_symbol ''Foo.m2'' ''method'' 4]"
  by code_simp

subsection \<open>Indentation-scoped extraction\<close>

lemma indent_of_empty: "indent_of [] = 0"
  by (simp add: indent_of_def)

lemma pop_dedented_zero: "pop_dedented 0 stack = []"
  by (induction stack) auto

lemma empty_line_no_class: "re_match PY_CLASS_RE [] = None"
  by (simp add: re_match_def PY_CLASS_RE_def)

lemma empty_line_no_def: "re_match PY_DEF_RE [] = None"
  by (simp add: re_match_def PY_DEF_RE_def)

lemma py_step_empty_line: "py_step st idx [] = \<lparr>py_symbols = py_symbols st, py_class_stack = []\<rparr>"
  by (simp add: py_step_def indent_of_empty pop_dedented_zero empty_line_no_class empty_line_no_def)

lemma py_loop_append:
  "py_loop st idx (xs @ ys) = py_loop (py_loop st idx xs) (idx + int (length xs)) ys"
  by (induction xs arbitrary: st idx) (simp_all add: add.assoc)

lemma py_step_stack_stays_empty:
  "py_class_stack st = [] \<Longrightarrow> re_match PY_CLASS_RE line = None \<Longrightarrow>
   py_class_stack (py_step st idx line) = []"
  by (simp add: py_step_def Let_def split: option.splits)

lemma py_loop_stack_stays_empty:
  "py_class_stack st = [] \<Longrightarrow> \<forall>l \<in> set ls. re_match PY_CLASS_RE l = None \<Longrightarrow>
   py_class_stack (py_loop st idx ls) = []"
  by (induction ls arbitrary: st idx) (simp_all add: py_step_stack_stays_empty)

lemma py_step_def_unqualified:
  "py_class_stack st = [] \<Longrightarrow> re_match PY_CLASS_RE line = None \<Longrightarrow> re_match PY_DEF_RE line = Some m \<Longrightarrow>
   py_symbols (py_step st idx line) = py_symbols st @ [mk_symbol (group 1 m) ''function'' idx]"
  by (simp add: py_step_def Let_def)

text \<open>
  A line that \<^verbatim>\<open>PY_DEF_RE\<close> matches is not matched by \<^verbatim>\<open>PY_CLASS_RE\<close>: both patterns skip the
  leading whitespace, and the first character after it cannot be both \<^verbatim>\<open>d\<close> and \<^verbatim>\<open>c\<close>.
\<close>

lemma star_cls_states:
  "st' \<in> set (star (run (Cls P)) k (p, s, g)) \<Longrightarrow>
   \<exists>n. fst (snd st') = drop n s \<and> (\<forall>c \<in> set (take n s). P c)"
proof (induction k arbitrary: p s g)
  case 0
  then have "fst (snd st') = drop 0 s" by simp
  then show ?case by (intro exI [of _ 0]) simp
next
  case (Suc k)
  show ?case
  proof (cases "st' = (p, s, g)")
    case True
    then show ?thesis by (intro exI [of _ 0]) simp
  next
    case False
    with Suc.prems obtain c cs where s: "s = c # cs" and pc: "P c"
      and in': "st' \<in> set (star (run (Cls P)) k (Some c, cs, g))"
      by (cases s) (auto split: if_splits)
    from Suc.IH [OF in'] obtain n where "fst (snd st') = drop n cs" "\<forall>c \<in> set (take n cs). P c"
      by blast
    with s pc show ?thesis by (intro exI [of _ "Suc n"]) simp
  qed
qed

lemma leading_spaces_then:
  assumes "run (Seq Bol (Seq (Star (Cls is_space)) (Seq (Lit w) r))) (None, line, []) \<noteq> []"
  shows "\<exists>n. (\<forall>c \<in> set (take n line). is_space c) \<and> take (length w) (drop n line) = w"
proof -
  from assms obtain st' where st': "st' \<in> set (star (run (Cls is_space)) (length line) (None, line, []))"
    and ne: "run (Seq (Lit w) r) st' \<noteq> []"
    by auto
  from star_cls_states [OF st'] obtain n where n: "fst (snd st') = drop n line"
    "\<forall>c \<in> set (take n line). is_space c"
    by blast
  obtain p s g where sp: "st' = (p, s, g)" by (cases st')
  from ne sp have "take (length w) s = w"
    by (auto split: if_splits)
  with n sp show ?thesis by auto
qed

lemma leading_spaces_unique:
  assumes n: "\<forall>c \<in> set (take n line). is_space c" "take (length v) (drop n line) = v"
    and m: "\<forall>c \<in> set (take m line). is_space c" "take (length w) (drop m line) = w"
    and v: "v \<noteq> []" "\<not> is_space (hd v)" and w: "w \<noteq> []" "\<not> is_space (hd w)"
  shows "hd v = hd w"
proof -
  have at: "k < length line \<and> line ! k = hd u"
    if "take (length u) (drop k line) = u" "u \<noteq> []" for k u
  proof -
    from that have "drop k line \<noteq> []" by auto
    then have k: "k < length line" by simp
    from that have "hd (drop k line) = hd u"
      by (metis hd_take length_greater_0_conv)
    with k show ?thesis by (simp add: hd_drop_conv_nth)
  qed
  from at [OF n(2) v(1)] have nn: "n < length line" "line ! n = hd v" by simp_all
  from at [OF m(2) w(1)] have mm: "m < length line" "line ! m = hd w" by simp_all
  have "n = m"
  proof (rule ccontr)
    assume "n \<noteq> m"
    then consider "n < m" | "m < n" by linarith
    then show False
    proof cases
      case 1
      with nn mm have "line ! n \<in> set (take m line)"
        by (metis in_set_conv_nth length_take min_less_iff_conj nth_take)
      with m(1) nn v show False by auto
    next
      case 2
      with nn mm have "line ! m \<in> set (take n line)"
        by (metis in_set_conv_nth length_take min_less_iff_conj nth_take)
      with n(1) mm w show False by auto
    qed
  qed
  with nn mm show ?thesis by simp
qed

lemma re_match_run: "re_match r line = Some m \<Longrightarrow> run r (None, line, []) \<noteq> []"
  by (auto simp: re_match_def split: list.splits)

lemma re_match_None_iff: "re_match r line = None \<longleftrightarrow> run r (None, line, []) = []"
  by (auto simp: re_match_def split: list.splits)

lemma def_line_not_class_line:
  assumes "re_match PY_DEF_RE line = Some m"
  shows "re_match PY_CLASS_RE line = None"
proof (rule ccontr)
  assume nc: "re_match PY_CLASS_RE line \<noteq> None"
  have ce: "PY_CLASS_RE = Seq Bol (Seq (Star (Cls is_space)) (Seq (Lit ''class'')
      (Seq (Plus (Cls is_space)) (Grp 1 (Plus (Cls is_ident))))))"
    by (simp add: PY_CLASS_RE_def)
  have de: "PY_DEF_RE = Seq Bol (Seq (Star (Cls is_space)) (Seq (Lit ''def'')
      (Seq (Plus (Cls is_space)) (Seq (Grp 1 (Plus (Cls is_ident)))
        (Seq (Star (Cls is_space)) (Lit ''(''))))))"
    by (simp add: PY_DEF_RE_def)
  from nc have c: "run PY_CLASS_RE (None, line, []) \<noteq> []"
    by (simp only: re_match_None_iff not_False_eq_True)
  from re_match_run [OF assms] have d: "run PY_DEF_RE (None, line, []) \<noteq> []" .
  from leading_spaces_then [OF c [unfolded ce]] obtain n where n: "\<forall>c \<in> set (take n line). is_space c"
    "take (length ''class'') (drop n line) = ''class''" by blast
  from leading_spaces_then [OF d [unfolded de]] obtain k where k: "\<forall>c \<in> set (take k line). is_space c"
    "take (length ''def'') (drop k line) = ''def''" by blast
  have "hd ''class'' = hd ''def''"
    by (rule leading_spaces_unique [OF n k]) (simp_all add: is_space_def)
  then show False by simp
qed

text \<open>
  Claim C9, amended. An empty line has indentation width 0, so after an empty line the
  scope stack is empty, whatever came before. A def line that follows it, with no class
  declaration line in between, is recorded with its unqualified name.
\<close>

theorem blank_line_clears_scope:
  "indent_of [] = 0 \<and>
   py_class_stack (py_loop st idx (pre @ [[]])) = [] \<and>
   ((\<forall>l \<in> set mid. re_match PY_CLASS_RE l = None) \<and> re_match PY_DEF_RE d = Some m \<longrightarrow>
      py_symbols (py_loop st idx (pre @ [[]] @ mid @ [d])) =
        py_symbols (py_loop st idx (pre @ [[]] @ mid)) @
          [mk_symbol (group 1 m) ''function'' (idx + int (length pre) + 1 + int (length mid))])"
proof -
  let ?st1 = "py_loop st idx (pre @ [[]])"
  have clear: "py_class_stack ?st1 = []"
    by (simp add: py_loop_append py_step_empty_line)
  have "py_symbols (py_loop st idx (pre @ [[]] @ mid @ [d])) =
        py_symbols (py_loop st idx (pre @ [[]] @ mid)) @
          [mk_symbol (group 1 m) ''function'' (idx + int (length pre) + 1 + int (length mid))]"
    if nc: "\<forall>l \<in> set mid. re_match PY_CLASS_RE l = None"
      and dd: "re_match PY_DEF_RE d = Some m"
  proof -
    have dc: "re_match PY_CLASS_RE d = None"
      using dd by (rule def_line_not_class_line)
    let ?st2 = "py_loop ?st1 (idx + int (length (pre @ [[]]))) mid"
    have e2: "py_class_stack ?st2 = []"
      using clear nc by (rule py_loop_stack_stays_empty)
    have a: "py_loop st idx (pre @ [[]] @ mid) = ?st2"
      using py_loop_append [of st idx "pre @ [[]]" mid] by simp
    have b: "py_loop st idx (pre @ [[]] @ mid @ [d]) =
        py_step ?st2 (idx + int (length (pre @ [[]] @ mid))) d"
      using py_loop_append [of st idx "pre @ [[]] @ mid" "[d]"] a by simp
    have i: "idx + int (length (pre @ [[]] @ mid)) = idx + int (length pre) + 1 + int (length mid)"
      by simp
    show ?thesis
      unfolding b a i by (rule py_step_def_unqualified [OF e2 dc dd])
  qed
  with clear indent_of_empty show ?thesis by blast
qed

text \<open>
  Claim C9 as stated fails: in the sample, line 3 is empty and lies in the body of the
  top-level class \<^verbatim>\<open>A\<close>, line 5 is a def that comes after it, and that def is recorded
  with the qualified name \<^verbatim>\<open>B.f\<close>.
\<close>

theorem def_after_blank_line_qualified:
  "py_nested_sample ! 2 = [] \<and>
   re_match PY_DEF_RE (py_nested_sample ! 4) = Some [(1, ''f'')] \<and>
   extract_python_symbols py_nested_sample =
     [mk_symbol ''A'' ''class'' 1, mk_symbol ''B'' ''class'' 4, mk_symbol ''B.f'' ''function'' 5]"
  by code_simp

theorem blank_line_clears_scope_witness:
  "re_match PY_CLASS_RE ''        return 1'' = None \<and>
   re_match PY_DEF_RE ''    def g(self):'' = Some [(1, ''g'')] \<and>
   py_symbols (py_loop \<lparr>py_symbols = [], py_class_stack = []\<rparr> 1
      ([''class A:'', ''    def f(self):''] @ [[]] @ [''        return 1''] @ [''    def g(self):''])) =
     py_symbols (py_loop \<lparr>py_symbols = [], py_class_stack = []\<rparr> 1
      ([''class A:'', ''    def f(self):''] @ [[]] @ [''        return 1''])) @
       [mk_symbol ''g'' ''function'' 5]"
proof -
  have a: "re_match PY_CLASS_RE ''        return 1'' = None"
    by code_simp
  have c: "re_match PY_DEF_RE ''    def g(self):'' = Some [(1, ''g'')]"
    by code_simp
  have g: "group 1 [(1, ''g'')] = ''g''"
    by (simp add: group_def)
  from blank_line_clears_scope [of "\<lparr>py_symbols = [], py_class_stack = []\<rparr>" 1
      "[''class A:'', ''    def f(self):'']" "[''        return 1'']" "''    def g(self):''" "[(1, ''g'')]"]
    a c
  have "py_symbols (py_loop \<lparr>py_symbols = [], py_class_stack = []\<rparr> 1
      ([''class A:'', ''    def f(self):''] @ [[]] @ [''        return 1''] @ [''    def g(self):''])) =
     py_symbols (py_loop \<lparr>py_symbols = [], py_class_stack = []\<rparr> 1
      ([''class A:'', ''    def f(self):''] @ [[]] @ [''        return 1''])) @
       [mk_symbol (group 1 [(1, ''g'')]) ''function'' (1 + int (length [''class A:'', ''    def f(self):'']) + 1 + int (length [''        return 1'']))]"
    by simp
  then have "py_symbols (py_loop \<lparr>py_symbols = [], py_class_stack = []\<rparr> 1
      ([''class A:'', ''    def f(self):''] @ [[]] @ [''        return 1''] @ [''    def g(self):''])) =
     py_symbols (py_loop \<lparr>py_symbols = [], py_class_stack = []\<rparr> 1
      ([''class A:'', ''    def f(self):''] @ [[]] @ [''        return 1''])) @
       [mk_symbol ''g'' ''function'' 5]"
    unfolding g by simp
  with a c show ?thesis by blast
qed

subsection \<open>Report validation\<close>

lemma validate_report_invalid_json:
  "json_loads text = None \<Longrightarrow>
   validate_report json_loads text = Inl (ReportGenerationError ''Model returned invalid JSON'')"
  by (simp add: validate_report_def)

lemma validate_report_object:
  "json_loads text = Some (JObj kvs) \<Longrightarrow>
   validate_report json_loads text =
     (if ''feature_analysis'' \<in> fst ` set kvs \<and> ''execution_plan_suggestion'' \<in> fst ` set kvs
      then Inr (JObj kvs) else Inl (ReportGenerationError missing_keys_message))"
  by (simp add: validate_report_def)

text \<open>
  Claim C2. For the model output \<^verbatim>\<open>null\<close>, which is valid JSON without the required keys,
  the membership test raises a \<^verbatim>\<open>TypeError\<close>: a failure that is not the typed
  report-generation error leaves \<^verbatim>\<open>_validate_report\<close>. (Unparseable text and dictionaries
  behave as claimed: \<open>validate_report_invalid_json\<close>, \<open>validate_report_object\<close>.)
\<close>

theorem validate_report_null_type_error:
  "validate_report sample_loads ''null'' =
     Inl (TypeError ''argument of type 'NoneType' is not iterable'')"
  by (simp add: validate_report_def sample_loads_def)



subsection \<open>Candidate selection\<close>

lemma iter_source_files_set:
  "e \<in> set (iter_source_files root tree) \<Longrightarrow>
   e \<in> set tree \<and> is_file e \<and> lower (suffix (root @ rel_parts e)) \<notin> set SKIP_EXTENSIONS \<and>
   (\<forall>part \<in> set (root @ rel_parts e). part \<notin> set SKIP_DIR_NAMES)"
  by (induction tree) (auto split: if_splits)

lemma collect_loop_set:
  "c \<in> set (collect_loop compute_weight root settings acc es) \<Longrightarrow>
   c \<in> set acc \<or> (\<exists>e \<in> set es. candidate_of root settings e c)"
proof (induction es arbitrary: acc)
  case Nil
  then show ?case by simp
next
  case (Cons e es)
  show ?case
  proof (cases "st_size e = 0 \<or> int (st_size e) > max_file_bytes settings")
    case True
    with Cons.prems have "c \<in> set (collect_loop compute_weight root settings acc es)"
      by (simp add: Let_def)
    from Cons.IH [OF this] show ?thesis by auto
  next
    case False
    note sz = False
    show ?thesis
    proof (cases "map_of SOURCE_EXTENSIONS (lower (suffix (root @ rel_parts e)))")
      case None
      with sz Cons.prems have "c \<in> set (collect_loop compute_weight root settings acc es)"
        by (simp add: Let_def)
      from Cons.IH [OF this] show ?thesis by auto
    next
      case (Some lang)
      show ?thesis
      proof (cases "lang = []")
        case True
        with sz Some Cons.prems have "c \<in> set (collect_loop compute_weight root settings acc es)"
          by (simp add: Let_def)
        from Cons.IH [OF this] show ?thesis by auto
      next
        case False
        let ?new = "\<lparr>path = root @ rel_parts e, relative_path = rel_parts e, language = lang,
                      size_bytes = st_size e, weight = compute_weight (rel_parts e) (st_size e) lang\<rparr>"
        from sz Some False Cons.prems
        have "c \<in> set (collect_loop compute_weight root settings (acc @ [?new]) es)"
          by (simp add: Let_def)
        from Cons.IH [OF this] have "c \<in> set acc \<or> c = ?new \<or> (\<exists>e \<in> set es. candidate_of root settings e c)"
          by auto
        moreover have "candidate_of root settings e ?new"
          using sz Some False by (simp add: candidate_of_def)
        ultimately show ?thesis by auto
      qed
    qed
  qed
qed

lemma set_sort_reverse: "set (sort_reverse key xs) = set xs"
  by (simp add: sort_reverse_def)

lemma length_sort_reverse: "length (sort_reverse key xs) = length xs"
  by (simp add: sort_reverse_def)

lemma set_slice_to: "set (slice_to xs m) \<subseteq> set xs"
  by (auto simp: slice_to_def dest: in_set_takeD)

lemma length_slice_to: "0 \<le> m \<Longrightarrow> int (length (slice_to xs m)) \<le> m"
  by (simp add: slice_to_def)

lemma collect_source_candidates_set:
  "c \<in> set (collect_source_candidates compute_weight root tree settings) \<Longrightarrow>
   \<exists>e \<in> set (iter_source_files root tree). candidate_of root settings e c"
proof -
  assume c: "c \<in> set (collect_source_candidates compute_weight root tree settings)"
  let ?all = "collect_loop compute_weight root settings [] (iter_source_files root tree)"
  have "set (collect_source_candidates compute_weight root tree settings) \<subseteq> set ?all"
    using set_slice_to [of "sort_reverse weight ?all" "max_candidate_files settings"]
    by (auto simp: collect_source_candidates_def Let_def set_sort_reverse)
  with c have "c \<in> set ?all" by blast
  from collect_loop_set [OF this] show ?thesis by simp
qed

lemma collect_source_candidates_length:
  assumes "0 \<le> max_candidate_files settings"
  shows "int (length (collect_source_candidates compute_weight root tree settings))
           \<le> max_candidate_files settings"
proof -
  let ?sorted = "sort_reverse weight (collect_loop compute_weight root settings [] (iter_source_files root tree))"
  show ?thesis
  proof (cases "int (length ?sorted) > max_candidate_files settings")
    case True
    then have "collect_source_candidates compute_weight root tree settings =
        slice_to ?sorted (max_candidate_files settings)"
      by (simp add: collect_source_candidates_def Let_def)
    with length_slice_to [OF assms, of ?sorted] show ?thesis by simp
  next
    case False
    then have "collect_source_candidates compute_weight root tree settings = ?sorted"
      by (simp add: collect_source_candidates_def Let_def)
    with False show ?thesis by simp
  qed
qed

text \<open>
  Claim C5, amended. When \<^verbatim>\<open>max_candidate_files\<close> is not negative, selection returns at
  most that many candidates. For every configuration, every returned candidate comes
  from a regular file of the tree, has a size above 0 and at most \<^verbatim>\<open>max_file_bytes\<close>, a
  lower-cased extension that the source-language mapping sends to the candidate's
  language and that is not in the noise extension set, and no path segment, at any depth,
  in the noise-directory set.
\<close>

theorem collect_source_candidates_bounds:
  "(0 \<le> max_candidate_files settings \<longrightarrow>
      int (length (collect_source_candidates compute_weight root tree settings))
        \<le> max_candidate_files settings) \<and>
   (\<forall>c \<in> set (collect_source_candidates compute_weight root tree settings).
      0 < size_bytes c \<and> int (size_bytes c) \<le> max_file_bytes settings \<and>
      map_of SOURCE_EXTENSIONS (lower (suffix (path c))) = Some (language c) \<and>
      lower (suffix (path c)) \<notin> set SKIP_EXTENSIONS \<and>
      (\<forall>part \<in> set (path c). part \<notin> set SKIP_DIR_NAMES) \<and>
      (\<exists>e \<in> set tree. is_file e \<and> path c = root @ rel_parts e \<and> size_bytes c = st_size e))"
proof -
  have each: "0 < size_bytes c \<and> int (size_bytes c) \<le> max_file_bytes settings \<and>
      map_of SOURCE_EXTENSIONS (lower (suffix (path c))) = Some (language c) \<and>
      lower (suffix (path c)) \<notin> set SKIP_EXTENSIONS \<and>
      (\<forall>part \<in> set (path c). part \<notin> set SKIP_DIR_NAMES) \<and>
      (\<exists>e \<in> set tree. is_file e \<and> path c = root @ rel_parts e \<and> size_bytes c = st_size e)"
    if c: "c \<in> set (collect_source_candidates compute_weight root tree settings)" for c
  proof -
    from collect_source_candidates_set [OF c] obtain e
      where e: "e \<in> set (iter_source_files root tree)" and ce: "candidate_of root settings e c"
      by blast
    from iter_source_files_set [OF e] ce show ?thesis
      unfolding candidate_of_def by auto
  qed
  with collect_source_candidates_length [of settings compute_weight root tree] show ?thesis
    by blast
qed

lemma two_files_all:
  "collect_source_candidates (\<lambda>p s l. - int s) [''repo''] two_files (demo_settings 200) =
     [\<lparr>path = [''repo'', ''src'', ''a.py''], relative_path = [''src'', ''a.py''], language = ''Python'',
       size_bytes = 10, weight = - 10\<rparr>,
      \<lparr>path = [''repo'', ''src'', ''B.TS''], relative_path = [''src'', ''B.TS''], language = ''TypeScript'',
       size_bytes = 20, weight = - 20\<rparr>]"
  by code_simp

lemma two_files_one:
  "collect_source_candidates (\<lambda>p s l. - int s) [''repo''] two_files (demo_settings 1) =
     [\<lparr>path = [''repo'', ''src'', ''a.py''], relative_path = [''src'', ''a.py''], language = ''Python'',
       size_bytes = 10, weight = - 10\<rparr>]"
  by code_simp

text \<open>
  Claim C5 as stated fails for a negative limit: with \<^verbatim>\<open>max_candidate_files = -1\<close> and two
  eligible files, the slice \<^verbatim>\<open>candidates[:-1]\<close> keeps one candidate, which is more than the
  limit.
\<close>

theorem negative_limit_exceeded:
  "\<not> int (length (collect_source_candidates (\<lambda>p s l. - int s) [''repo''] two_files (demo_settings (- 1))))
       \<le> max_candidate_files (demo_settings (- 1))"
  by code_simp

theorem collect_source_candidates_bounds_witness:
  "0 \<le> max_candidate_files (demo_settings 1) \<and>
   int (length (collect_source_candidates (\<lambda>p s l. - int s) [''repo''] two_files (demo_settings 1)))
     \<le> max_candidate_files (demo_settings 1) \<and>
   \<lparr>path = [''repo'', ''src'', ''a.py''], relative_path = [''src'', ''a.py''], language = ''Python'',
     size_bytes = 10, weight = - 10\<rparr>
     \<in> set (collect_source_candidates (\<lambda>p s l. - int s) [''repo''] two_files (demo_settings 1)) \<and>
   map_of SOURCE_EXTENSIONS (lower (suffix [''repo'', ''src'', ''a.py''])) = Some ''Python'' \<and>
   lower (suffix [''repo'', ''src'', ''a.py'']) \<notin> set SKIP_EXTENSIONS"
proof -
  let ?c = "\<lparr>path = [''repo'', ''src'', ''a.py''], relative_path = [''src'', ''a.py''], language = ''Python'',
     size_bytes = 10, weight = - (10::int)\<rparr>"
  have pos: "0 \<le> max_candidate_files (demo_settings 1)"
    by (simp add: demo_settings_def)
  have m: "?c \<in> set (collect_source_candidates (\<lambda>p s l. - int s) [''repo''] two_files (demo_settings 1))"
    by (simp add: two_files_one)
  from collect_source_candidates_bounds [of "demo_settings 1" "\<lambda>p s l. - int s" "[''repo'']" two_files] pos
  have len: "int (length (collect_source_candidates (\<lambda>p s l. - int s) [''repo''] two_files (demo_settings 1)))
     \<le> max_candidate_files (demo_settings 1)"
    by blast
  from collect_source_candidates_bounds [of "demo_settings 1" "\<lambda>p s l. - int s" "[''repo'']" two_files] m
  have "map_of SOURCE_EXTENSIONS (lower (suffix (path ?c))) = Some (language ?c) \<and>
      lower (suffix (path ?c)) \<notin> set SKIP_EXTENSIONS"
    by blast
  with pos len m show ?thesis by simp
qed

text \<open>
  The order of the selection, for any weight function into a linear order: the sorted
  list is non-increasing by weight and keeps candidates of equal weight in discovery
  order.
\<close>

lemma sort_reverse_sorted: "sorted_wrt (\<lambda>a b. key a \<ge> key b) (sort_reverse key xs)"
proof -
  have "sorted (map key (sort_key key (rev xs)))" by simp
  then have "sorted_wrt (\<lambda>a b. key a \<le> key b) (sort_key key (rev xs))"
    by (simp add: sorted_wrt_map)
  then show ?thesis
    by (simp add: sort_reverse_def sorted_wrt_rev)
qed

lemma sort_reverse_stable:
  "filter (\<lambda>x. key x = k) (sort_reverse key xs) = filter (\<lambda>x. key x = k) xs"
proof -
  have "filter (\<lambda>x. key x = k) (sort_reverse key xs) = rev (filter (\<lambda>x. key x = k) (sort_key key (rev xs)))"
    by (simp add: sort_reverse_def rev_filter)
  also have "\<dots> = rev (filter (\<lambda>x. key x = k) (rev xs))"
    by (simp only: sort_key_stable)
  also have "\<dots> = filter (\<lambda>x. key x = k) xs"
    by (simp add: rev_filter)
  finally show ?thesis .
qed

lemma sorted_wrt_slice_to: "sorted_wrt R xs \<Longrightarrow> sorted_wrt R (slice_to xs m)"
  by (simp add: slice_to_def sorted_wrt_take)

lemma collect_source_candidates_sorted:
  "sorted_wrt (\<lambda>a b. weight a \<ge> weight b) (collect_source_candidates compute_weight root tree settings)"
  by (simp add: collect_source_candidates_def Let_def sort_reverse_sorted sorted_wrt_slice_to)

subsection \<open>Summarisation\<close>










lemma demo_summaries:
  "summarize_candidates demo_read_text (\<lambda>s. s) (demo_settings 200) demo_call
      [cand_a, cand_b] ''map features'' =
     [\<lparr>fs_path = [''repo'', ''b.py''], fs_relative_path = [''b.py''], fs_language = ''Python'',
       fs_summary = ''sets y'', fs_symbols = []\<rparr>]"
  by code_simp

end
